theory Spec2Isabelle
  imports Main
begin

section \<open>Documents and collections\<close>

text \<open>
  The backend keeps three collections in a document store: posts, comments and
  communities. A collection is modelled as the list of its documents; the store's
  \<^verbatim>\<open>_id\<close> of a document is the field \<open>post_id\<close>, \<open>comment_id\<close> or \<open>community_id\<close>,
  which the store keeps unique within a collection. An ObjectId is a natural number,
  the value of its 24 hexadecimal digits. A string is the list of its UTF-16 code units;
  \<open>js\<close> gives the string of an ASCII text. A count is a JavaScript number that holds an
  integer. The fields \<^verbatim>\<open>createdAt\<close>, \<^verbatim>\<open>slug\<close> and \<^verbatim>\<open>rules\<close> play no part in the operations below
  and are left out, as is the population of references in a response.
\<close>

type_synonym oid = nat

type_synonym jsstring = "nat list"

definition js :: "string \<Rightarrow> jsstring" where
  "js s = map of_char s"

record post =
  post_id :: oid
  title :: jsstring
  content :: "jsstring option"
  image :: "jsstring option"
  url :: "jsstring option"
  author :: oid
  community :: oid
  upvotes :: "oid list"
  downvotes :: "oid list"
  voteScore :: int
  commentCount :: int

record comment =
  comment_id :: oid
  content :: jsstring
  author :: oid
  post :: oid
  parent :: "oid option"
  upvotes :: "oid list"
  downvotes :: "oid list"
  voteScore :: int

record community =
  community_id :: oid
  name :: jsstring
  description :: jsstring
  creator :: oid
  moderators :: "oid list"
  members :: "oid list"
  memberCount :: int

record store =
  posts :: "post list"
  comments :: "comment list"
  communities :: "community list"
  nextId :: oid

text \<open>
  A response is the HTTP status with the JSON body: \<^verbatim>\<open>{success: false, error}\<close>,
  \<^verbatim>\<open>{success: false, errors}\<close> or \<^verbatim>\<open>{success: true, data}\<close>. An exception caught by a
  controller goes to the error middleware of \<^verbatim>\<open>server.js\<close>, which answers 500 with the
  exception's message: \<open>ServerError\<close> with the kind of the exception, the text of the
  message left open. A handler returns its response together with the store it leaves
  behind, so a handler that fails halfway shows what it has already written.
  \<open>Unmodelled\<close> is the answer to a request body that this theory does not model: it says
  nothing of what the code does then.
\<close>

datatype exception = TypeError | ValidationError

datatype payload =
  NoData
  | VoteData int nat nat
  | MemberCountData nat
  | PostData post
  | CommentData comment
  | CommunityData community
  | NullData

datatype response =
  Error nat string
  | Errors nat "string list"
  | ServerError exception
  | Success nat payload
  | Unmodelled

fun succeeded :: "response \<Rightarrow> bool" where
  "succeeded (Success _ _) = True"
| "succeeded _ = False"

subsection \<open>Store primitives\<close>

text \<open>\<^verbatim>\<open>Model.findById(id)\<close>, and \<^verbatim>\<open>Model.findOne({name})\<close> on communities.\<close>

definition findById :: "('a \<Rightarrow> oid) \<Rightarrow> oid \<Rightarrow> 'a list \<Rightarrow> 'a option" where
  "findById key i ds = find (\<lambda>d. key d = i) ds"

definition findOneByName :: "jsstring \<Rightarrow> community list \<Rightarrow> community option" where
  "findOneByName n cs = find (\<lambda>c. community.name c = n) cs"

text \<open>Writing a document back under its \<^verbatim>\<open>_id\<close>, and \<^verbatim>\<open>doc.remove()\<close>.\<close>

definition writeById :: "('a \<Rightarrow> oid) \<Rightarrow> 'a \<Rightarrow> 'a list \<Rightarrow> 'a list" where
  "writeById key d ds = map (\<lambda>x. if key x = key d then d else x) ds"

definition removeById :: "('a \<Rightarrow> oid) \<Rightarrow> oid \<Rightarrow> 'a list \<Rightarrow> 'a list" where
  "removeById key i ds = filter (\<lambda>x. key x \<noteq> i) ds"

text \<open>The \<^verbatim>\<open>pre('save')\<close> hooks of the three schemas.\<close>

definition PostSchema_pre_save :: "post \<Rightarrow> post" where
  "PostSchema_pre_save p =
     p\<lparr>post.voteScore := int (length (post.upvotes p)) - int (length (post.downvotes p))\<rparr>"

definition CommentSchema_pre_save :: "comment \<Rightarrow> comment" where
  "CommentSchema_pre_save c =
     c\<lparr>comment.voteScore :=
          int (length (comment.upvotes c)) - int (length (comment.downvotes c))\<rparr>"

definition CommunitySchema_pre_save :: "community \<Rightarrow> community" where
  "CommunitySchema_pre_save c =
     c\<lparr>community.memberCount := int (length (community.members c))\<rparr>"

text \<open>
  \<^verbatim>\<open>doc.save()\<close> on a document read from the store: the hook runs, then the document is
  written back. The saved document is returned with the store.
\<close>

definition save_post :: "store \<Rightarrow> post \<Rightarrow> post \<times> store" where
  "save_post s p =
     (let p' = PostSchema_pre_save p
      in (p', s\<lparr>posts := writeById post_id p' (posts s)\<rparr>))"

definition save_comment :: "store \<Rightarrow> comment \<Rightarrow> comment \<times> store" where
  "save_comment s c =
     (let c' = CommentSchema_pre_save c
      in (c', s\<lparr>comments := writeById comment_id c' (comments s)\<rparr>))"

definition save_community :: "store \<Rightarrow> community \<Rightarrow> community \<times> store" where
  "save_community s c =
     (let c' = CommunitySchema_pre_save c
      in (c', s\<lparr>communities := writeById community_id c' (communities s)\<rparr>))"

section \<open>Voting\<close>

text \<open>
  \<^verbatim>\<open>votePost\<close> and \<^verbatim>\<open>voteComment\<close>: the value must be 1 or -1, the target must exist;
  the actor's present vote is filtered out of both arrays, the new vote is pushed unless
  the actor already had a vote of that value, the score is recomputed and the document
  saved.
\<close>

definition votePost :: "store \<Rightarrow> oid \<Rightarrow> oid \<Rightarrow> int \<Rightarrow> response \<times> store" where
  "votePost s user pid val =
     (if val \<noteq> 1 \<and> val \<noteq> - 1 then (Error 400 ''Vote value must be 1 or -1'', s)
      else case findById post_id pid (posts s) of
        None \<Rightarrow> (Error 404 ''Post not found'', s)
      | Some p \<Rightarrow>
          let upvoted = user \<in> set (post.upvotes p);
              downvoted = user \<in> set (post.downvotes p);
              p1 = (if upvoted
                    then p\<lparr>post.upvotes := filter (\<lambda>i. i \<noteq> user) (post.upvotes p)\<rparr>
                    else p);
              p2 = (if downvoted
                    then p1\<lparr>post.downvotes := filter (\<lambda>i. i \<noteq> user) (post.downvotes p1)\<rparr>
                    else p1);
              p3 = (if (val = 1 \<and> \<not> upvoted) \<or> (val = - 1 \<and> \<not> downvoted)
                    then (if val = 1
                          then p2\<lparr>post.upvotes := post.upvotes p2 @ [user]\<rparr>
                          else p2\<lparr>post.downvotes := post.downvotes p2 @ [user]\<rparr>)
                    else p2);
              p4 = p3\<lparr>post.voteScore :=
                        int (length (post.upvotes p3)) - int (length (post.downvotes p3))\<rparr>;
              (p5, s') = save_post s p4
          in (Success 200 (VoteData (post.voteScore p5) (length (post.upvotes p5))
                             (length (post.downvotes p5))), s'))"

definition voteComment :: "store \<Rightarrow> oid \<Rightarrow> oid \<Rightarrow> int \<Rightarrow> response \<times> store" where
  "voteComment s user cid val =
     (if val \<noteq> 1 \<and> val \<noteq> - 1 then (Error 400 ''Vote value must be 1 or -1'', s)
      else case findById comment_id cid (comments s) of
        None \<Rightarrow> (Error 404 ''Comment not found'', s)
      | Some c \<Rightarrow>
          let upvoted = user \<in> set (comment.upvotes c);
              downvoted = user \<in> set (comment.downvotes c);
              c1 = (if upvoted
                    then c\<lparr>comment.upvotes := filter (\<lambda>i. i \<noteq> user) (comment.upvotes c)\<rparr>
                    else c);
              c2 = (if downvoted
                    then c1\<lparr>comment.downvotes :=
                              filter (\<lambda>i. i \<noteq> user) (comment.downvotes c1)\<rparr>
                    else c1);
              c3 = (if (val = 1 \<and> \<not> upvoted) \<or> (val = - 1 \<and> \<not> downvoted)
                    then (if val = 1
                          then c2\<lparr>comment.upvotes := comment.upvotes c2 @ [user]\<rparr>
                          else c2\<lparr>comment.downvotes := comment.downvotes c2 @ [user]\<rparr>)
                    else c2);
              c4 = c3\<lparr>comment.voteScore :=
                        int (length (comment.upvotes c3)) - int (length (comment.downvotes c3))\<rparr>;
              (c5, s') = save_comment s c4
          in (Success 200 (VoteData (comment.voteScore c5) (length (comment.upvotes c5))
                             (length (comment.downvotes c5))), s'))"

section \<open>Schema validation\<close>

text \<open>
  The schemas trim some strings with \<^verbatim>\<open>String.prototype.trim\<close>, which strips the white
  space and the line terminators of ECMAScript at both ends, and validate them: a post's
  title is required and has at most 300 code units; a comment's content is required; a
  community's name is required, has 3 to 21 code units out of letters, digits and
  underscore; its description is required and has at most 500 code units. A failed
  validation is an exception.
\<close>

definition is_space :: "nat \<Rightarrow> bool" where
  "is_space c =
     ((9 \<le> c \<and> c \<le> 13) \<or> c = 32 \<or> c = 160 \<or> c = 5760 \<or> (8192 \<le> c \<and> c \<le> 8202) \<or>
      c = 8232 \<or> c = 8233 \<or> c = 8239 \<or> c = 8287 \<or> c = 12288 \<or> c = 65279)"

definition trim :: "jsstring \<Rightarrow> jsstring" where
  "trim s = rev (dropWhile is_space (rev (dropWhile is_space s)))"

definition name_char :: "nat \<Rightarrow> bool" where
  "name_char n =
     ((48 \<le> n \<and> n \<le> 57) \<or> (65 \<le> n \<and> n \<le> 90) \<or> (97 \<le> n \<and> n \<le> 122) \<or> n = 95)"

definition name_matches :: "jsstring \<Rightarrow> bool" where
  "name_matches s = (s \<noteq> [] \<and> list_all name_char s)"

definition valid_title :: "jsstring \<Rightarrow> bool" where
  "valid_title t = (t \<noteq> [] \<and> length t \<le> 300)"

definition valid_name :: "jsstring \<Rightarrow> bool" where
  "valid_name n = (n \<noteq> [] \<and> 3 \<le> length n \<and> length n \<le> 21 \<and> name_matches n)"

definition valid_description :: "jsstring \<Rightarrow> bool" where
  "valid_description d = (d \<noteq> [] \<and> length d \<le> 500)"

section \<open>Numbers\<close>

text \<open>
  A counter is a double that holds an integer. The sum of two such doubles is their
  exact sum rounded to the nearest double, a tie going to the even significand: exact
  below \<open>2 ^ 53\<close>, a multiple of a power of two above. (Sums beyond the largest double
  do not occur with the summands 1, -1 and a count of documents.)
\<close>

fun bit_length :: "nat \<Rightarrow> nat" where
  "bit_length n = (if n = 0 then 0 else Suc (bit_length (n div 2)))"

definition round_double :: "int \<Rightarrow> int" where
  "round_double n =
     (let m = \<bar>n\<bar>
      in if m < 2 ^ 53 then n
         else
           let k = bit_length (nat m) - 53;
               q = m div 2 ^ k;
               r = m mod 2 ^ k;
               h = 2 ^ (k - 1);
               q' = (if h < r \<or> (r = h \<and> odd q) then q + 1 else q)
           in sgn n * (q' * 2 ^ k))"

definition js_add :: "int \<Rightarrow> int \<Rightarrow> int" where
  "js_add a b = round_double (a + b)"

section \<open>Request bodies\<close>

text \<open>
  The body of an update request is the JSON object that \<^verbatim>\<open>express.json()\<close> parsed: its
  keys with their values, each key once. A number is an integer among the doubles.
\<close>

datatype json =
  JNull
  | JBool bool
  | JNum int
  | JStr jsstring
  | JArr "json list"
  | JObj "(jsstring \<times> json) list"

type_synonym body = "(jsstring \<times> json) list"

text \<open>
  \<^verbatim>\<open>req.body.key\<close>, which is \<^verbatim>\<open>undefined\<close> for a key that is absent; the truthiness of
  JavaScript; and \<^verbatim>\<open>delete req.body.key\<close>.
\<close>

definition get_key :: "body \<Rightarrow> jsstring \<Rightarrow> json option" where
  "get_key b k = map_of b k"

fun truthy :: "json option \<Rightarrow> bool" where
  "truthy None = False"
| "truthy (Some JNull) = False"
| "truthy (Some (JBool v)) = v"
| "truthy (Some (JNum n)) = (n \<noteq> 0)"
| "truthy (Some (JStr s)) = (s \<noteq> [])"
| "truthy (Some (JArr xs)) = True"
| "truthy (Some (JObj kvs)) = True"

definition delete_key :: "body \<Rightarrow> jsstring \<Rightarrow> body" where
  "delete_key b k = filter (\<lambda>kv. fst kv \<noteq> k) b"

subsection \<open>The update that the store reads in a body\<close>

text \<open>
  \<^verbatim>\<open>findByIdAndUpdate\<close> reads the body as an update document: a top-level key sets the
  path of its name, and so does a key of the object under \<^verbatim>\<open>$set\<close>. The value of a path
  is cast to the schema's type for it.

  This theory models the bodies whose keys are paths of the documents here, at the top
  level or under a \<^verbatim>\<open>$set\<close> that is not empty, no path in both places, with these casts:
  a string or a boolean to a String path (a boolean becomes \<^verbatim>\<open>true\<close> or \<^verbatim>\<open>false\<close>), a
  string of 24 hexadecimal digits to an ObjectId, an array of such strings to an array
  of ObjectIds, a number to a Number path. Every other body (another operator, another
  key, a value cast otherwise or not at all) is outside: what the store reads in it is
  \<open>None\<close> here, and the handler's answer \<open>Unmodelled\<close>.
\<close>

definition set_paths :: "string list \<Rightarrow> body \<Rightarrow> body option" where
  "set_paths paths b =
     (let top = filter (\<lambda>kv. fst kv \<noteq> js ''$set'') b;
          m = (case map_of b (js ''$set'') of
                 None \<Rightarrow> Some top
               | Some (JObj kvs) \<Rightarrow>
                   if kvs = [] \<or> list_ex (\<lambda>kv. fst kv \<in> set (map fst kvs)) top then None
                   else Some (top @ kvs)
               | Some other \<Rightarrow> None)
      in case m of
           None \<Rightarrow> None
         | Some kvs \<Rightarrow> if list_all (\<lambda>kv. fst kv \<in> set (map js paths)) kvs then Some kvs else None)"

definition cast_string :: "json \<Rightarrow> jsstring option" where
  "cast_string v =
     (case v of
        JStr s \<Rightarrow> Some s
      | JBool t \<Rightarrow> Some (if t then js ''true'' else js ''false'')
      | other \<Rightarrow> None)"

definition hex_digit :: "nat \<Rightarrow> nat option" where
  "hex_digit c =
     (if 48 \<le> c \<and> c \<le> 57 then Some (c - 48)
      else if 97 \<le> c \<and> c \<le> 102 then Some (c - 87)
      else if 65 \<le> c \<and> c \<le> 70 then Some (c - 55)
      else None)"

definition cast_oid :: "json \<Rightarrow> oid option" where
  "cast_oid v =
     (case v of
        JStr s \<Rightarrow>
          if length s = 24
          then map_option (foldl (\<lambda>a d. 16 * a + d) 0) (those (map hex_digit s))
          else None
      | other \<Rightarrow> None)"

definition cast_oids :: "json \<Rightarrow> oid list option" where
  "cast_oids v = (case v of JArr xs \<Rightarrow> those (map cast_oid xs) | other \<Rightarrow> None)"

definition cast_number :: "json \<Rightarrow> int option" where
  "cast_number v = (case v of JNum n \<Rightarrow> Some n | other \<Rightarrow> None)"

text \<open>
  The cast of the path \<open>k\<close>: \<open>Some None\<close> when no key sets it, \<open>Some (Some x)\<close> when its
  value casts to \<open>x\<close>, \<open>None\<close> when the value is outside the casts above.
\<close>

definition cast_path :: "(json \<Rightarrow> 'b option) \<Rightarrow> body \<Rightarrow> string \<Rightarrow> 'b option option" where
  "cast_path cast m k =
     (case map_of m (js k) of None \<Rightarrow> Some None | Some v \<Rightarrow> map_option Some (cast v))"

section \<open>Posts\<close>

text \<open>
  The update of a post after the casts: the paths of the schema, each set or not.
\<close>

record post_body =
  title :: "jsstring option"
  content :: "jsstring option"
  image :: "jsstring option"
  url :: "jsstring option"
  author :: "oid option"
  community :: "oid option"
  upvotes :: "oid list option"
  downvotes :: "oid list option"
  voteScore :: "int option"
  commentCount :: "int option"

definition set_field :: "'b option \<Rightarrow> ('b \<Rightarrow> 'a \<Rightarrow> 'a) \<Rightarrow> 'a \<Rightarrow> 'a" where
  "set_field v upd d = (case v of None \<Rightarrow> d | Some x \<Rightarrow> upd x d)"

definition apply_post_body :: "post_body \<Rightarrow> post \<Rightarrow> post" where
  "apply_post_body b p =
     (set_field (post_body.commentCount b) (\<lambda>v d. d\<lparr>post.commentCount := v\<rparr>)
     (set_field (post_body.voteScore b) (\<lambda>v d. d\<lparr>post.voteScore := v\<rparr>)
     (set_field (post_body.downvotes b) (\<lambda>v d. d\<lparr>post.downvotes := v\<rparr>)
     (set_field (post_body.upvotes b) (\<lambda>v d. d\<lparr>post.upvotes := v\<rparr>)
     (set_field (post_body.community b) (\<lambda>v d. d\<lparr>post.community := v\<rparr>)
     (set_field (post_body.author b) (\<lambda>v d. d\<lparr>post.author := v\<rparr>)
     (set_field (post_body.url b) (\<lambda>v d. d\<lparr>post.url := Some v\<rparr>)
     (set_field (post_body.image b) (\<lambda>v d. d\<lparr>post.image := Some v\<rparr>)
     (set_field (post_body.content b) (\<lambda>v d. d\<lparr>post.content := Some (trim v)\<rparr>)
     (set_field (post_body.title b) (\<lambda>v d. d\<lparr>post.title := trim v\<rparr>) p))))))))))"

definition valid_post_body :: "post_body \<Rightarrow> bool" where
  "valid_post_body b =
     (case post_body.title b of None \<Rightarrow> True | Some t \<Rightarrow> valid_title (trim t))"

text \<open>The paths of a post, and the update that the store reads in a body.\<close>

definition post_paths :: "string list" where
  "post_paths =
     [''title'', ''content'', ''image'', ''url'', ''author'', ''community'', ''upvotes'',
      ''downvotes'', ''voteScore'', ''commentCount'']"

definition cast_post_update :: "body \<Rightarrow> post_body option" where
  "cast_post_update b =
     (case set_paths post_paths b of
        None \<Rightarrow> None
      | Some m \<Rightarrow>
          Option.bind (cast_path cast_string m ''title'') (\<lambda>v1.
          Option.bind (cast_path cast_string m ''content'') (\<lambda>v2.
          Option.bind (cast_path cast_string m ''image'') (\<lambda>v3.
          Option.bind (cast_path cast_string m ''url'') (\<lambda>v4.
          Option.bind (cast_path cast_oid m ''author'') (\<lambda>v5.
          Option.bind (cast_path cast_oid m ''community'') (\<lambda>v6.
          Option.bind (cast_path cast_oids m ''upvotes'') (\<lambda>v7.
          Option.bind (cast_path cast_oids m ''downvotes'') (\<lambda>v8.
          Option.bind (cast_path cast_number m ''voteScore'') (\<lambda>v9.
          Option.bind (cast_path cast_number m ''commentCount'') (\<lambda>v10.
            Some \<lparr>title = v1, content = v2, image = v3, url = v4, author = v5,
                  community = v6, upvotes = v7, downvotes = v8, voteScore = v9,
                  commentCount = v10\<rparr>)))))))))))"

text \<open>
  \<^verbatim>\<open>Model.findByIdAndUpdate(id, body, {new: true})\<close>: the document under \<open>id\<close> is
  changed by \<open>upd\<close> and read back.
\<close>

definition findByIdAndUpdate ::
  "('a \<Rightarrow> oid) \<Rightarrow> oid \<Rightarrow> ('a \<Rightarrow> 'a) \<Rightarrow> 'a list \<Rightarrow> 'a option \<times> 'a list" where
  "findByIdAndUpdate key i upd ds =
     (let ds' = map (\<lambda>x. if key x = i then upd x else x) ds
      in (findById key i ds', ds'))"

text \<open>
  \<^verbatim>\<open>updatePost\<close>: the post must exist and the actor be its author; the request body goes
  as it is to \<^verbatim>\<open>findByIdAndUpdate\<close> with \<^verbatim>\<open>runValidators\<close>: the paths that it sets
  are validated, then each of them is set.
\<close>

definition updatePost :: "store \<Rightarrow> oid \<Rightarrow> oid \<Rightarrow> body \<Rightarrow> response \<times> store" where
  "updatePost s user pid body =
     (case findById post_id pid (posts s) of
        None \<Rightarrow> (Error 404 ''Post not found'', s)
      | Some p \<Rightarrow>
          if post.author p \<noteq> user
          then (Error 401 ''Not authorized to update this post'', s)
          else (case cast_post_update body of
                  None \<Rightarrow> (Unmodelled, s)
                | Some b \<Rightarrow>
                    if valid_post_body b
                    then
                      let (r, ps) = findByIdAndUpdate post_id pid (apply_post_body b) (posts s)
                      in (Success 200 (case r of None \<Rightarrow> NullData | Some p' \<Rightarrow> PostData p'),
                          s\<lparr>posts := ps\<rparr>)
                    else (ServerError ValidationError, s)))"

text \<open>
  \<^verbatim>\<open>deletePost\<close> reads the post's community to look for the actor among its moderators;
  on a community that is gone the read of \<^verbatim>\<open>community.moderators\<close> throws.
\<close>

definition deletePost :: "store \<Rightarrow> oid \<Rightarrow> oid \<Rightarrow> response \<times> store" where
  "deletePost s user pid =
     (case findById post_id pid (posts s) of
        None \<Rightarrow> (Error 404 ''Post not found'', s)
      | Some p \<Rightarrow>
          (case findById community_id (post.community p) (communities s) of
             None \<Rightarrow> (ServerError TypeError, s)
           | Some c \<Rightarrow>
               let isModerator = user \<in> set (community.moderators c)
               in if post.author p \<noteq> user \<and> \<not> isModerator
                  then (Error 401 ''Not authorized to delete this post'', s)
                  else
                    let s1 = s\<lparr>comments := filter (\<lambda>x. comment.post x \<noteq> pid) (comments s)\<rparr>;
                        s2 = s1\<lparr>posts := removeById post_id (post_id p) (posts s1)\<rparr>
                    in (Success 200 NoData, s2)))"

text \<open>
  \<^verbatim>\<open>addComment\<close>, for a content that is a string and a parent that is absent or a
  well-formed ObjectId: the route requires a non-empty content; the post must exist; the
  comment is created with \<^verbatim>\<open>parent: req.body.parent || null\<close>, under a fresh id, and the
  schema trims and requires its content; then the post's counter is incremented and the
  post saved.
\<close>

definition addComment ::
  "store \<Rightarrow> oid \<Rightarrow> oid \<Rightarrow> jsstring \<Rightarrow> oid option \<Rightarrow> response \<times> store" where
  "addComment s user pid text parentId =
     (if text = [] then (Errors 400 [''Content is required''], s)
      else case findById post_id pid (posts s) of
        None \<Rightarrow> (Error 404 ''Post not found'', s)
      | Some p \<Rightarrow>
          if trim text = [] then (ServerError ValidationError, s)
          else
            let c = CommentSchema_pre_save
                      \<lparr>comment_id = nextId s, content = trim text, author = user, post = pid,
                       parent = parentId, upvotes = [], downvotes = [], voteScore = 0\<rparr>;
                s1 = s\<lparr>comments := comments s @ [c], nextId := Suc (nextId s)\<rparr>;
                p1 = p\<lparr>post.commentCount := js_add (post.commentCount p) 1\<rparr>;
                (p2, s2) = save_post s1 p1
            in (Success 201 (CommentData c), s2))"

section \<open>Comments\<close>

text \<open>
  \<^verbatim>\<open>deleteComment\<close>: the comment must exist; the actor must be its author or the author
  of its post (the second test is only made when the first fails, and throws on a post
  that is gone). The comments whose parent is this comment are deleted, the post's
  counter is decreased by one and by the number of comments whose parent is this
  comment, counted at that moment, the post is saved and the comment removed.
\<close>

definition deleteComment :: "store \<Rightarrow> oid \<Rightarrow> oid \<Rightarrow> response \<times> store" where
  "deleteComment s user cid =
     (case findById comment_id cid (comments s) of
        None \<Rightarrow> (Error 404 ''Comment not found'', s)
      | Some c \<Rightarrow>
          (case findById post_id (comment.post c) (posts s) of
             None \<Rightarrow>
               if comment.author c \<noteq> user
               then (ServerError TypeError, s)
               else (ServerError TypeError,
                     s\<lparr>comments :=
                         filter (\<lambda>x. comment.parent x \<noteq> Some (comment_id c)) (comments s)\<rparr>)
           | Some p \<Rightarrow>
               if comment.author c \<noteq> user \<and> post.author p \<noteq> user
               then (Error 401 ''Not authorized to delete this comment'', s)
               else
                 let s1 = s\<lparr>comments :=
                             filter (\<lambda>x. comment.parent x \<noteq> Some (comment_id c)) (comments s)\<rparr>;
                     p1 = p\<lparr>post.commentCount := js_add (post.commentCount p) (- 1)\<rparr>;
                     repliesCount =
                       length (filter (\<lambda>x. comment.parent x = Some (comment_id c)) (comments s1));
                     p2 = p1\<lparr>post.commentCount :=
                               js_add (post.commentCount p1) (- int repliesCount)\<rparr>;
                     (p3, s2) = save_post s1 p2;
                     s3 = s2\<lparr>comments := removeById comment_id (comment_id c) (comments s2)\<rparr>
                 in (Success 200 NoData, s3)))"

section \<open>Communities\<close>

text \<open>
  The body of \<^verbatim>\<open>createCommunity\<close>, for a name and a description that are strings or
  absent, and the update of a community after the casts: the paths of the schema, each
  set or not.
\<close>

record community_body =
  name :: "jsstring option"
  description :: "jsstring option"
  creator :: "oid option"
  moderators :: "oid list option"
  members :: "oid list option"
  memberCount :: "int option"

text \<open>A body field is missing or empty for the route's \<^verbatim>\<open>not().isEmpty()\<close> check alike.\<close>

definition field_text :: "jsstring option \<Rightarrow> jsstring" where
  "field_text v = (case v of None \<Rightarrow> [] | Some x \<Rightarrow> x)"

text \<open>
  The route's \<^verbatim>\<open>isLength\<close> counts a surrogate pair, a code unit from D800 to DBFF with
  one from DC00 to DFFF after it, as one.
\<close>

fun surrogate_pairs :: "jsstring \<Rightarrow> nat" where
  "surrogate_pairs (a # b # cs) =
     (if 55296 \<le> a \<and> a \<le> 56319 \<and> 56320 \<le> b \<and> b \<le> 57343
      then Suc (surrogate_pairs cs) else surrogate_pairs (b # cs))"
| "surrogate_pairs cs = 0"

definition isLength :: "jsstring \<Rightarrow> nat \<Rightarrow> nat \<Rightarrow> bool" where
  "isLength s lo hi =
     (let len = length s - surrogate_pairs s in lo \<le> len \<and> len \<le> hi)"

text \<open>The checks of the route \<^verbatim>\<open>POST /api/communities\<close>, with the messages that fail.\<close>

definition createCommunity_checks :: "community_body \<Rightarrow> string list" where
  "createCommunity_checks b =
     (let n = field_text (community_body.name b);
          d = field_text (community_body.description b)
      in (if n = [] then [''Name is required''] else []) @
         (if isLength n 3 21 then [] else [''Name must be between 3 and 21 characters'']) @
         (if name_matches n
          then [] else [''Name can only contain letters, numbers, and underscores'']) @
         (if d = [] then [''Description is required''] else []))"

text \<open>
  \<^verbatim>\<open>createCommunity\<close>: the name must be new; the actor becomes creator, the only moderator
  and the only member, whatever the body says; the schema validates and the hook counts
  the members.
\<close>

definition createCommunity :: "store \<Rightarrow> oid \<Rightarrow> community_body \<Rightarrow> response \<times> store" where
  "createCommunity s user body =
     (let errors = createCommunity_checks body
      in if errors \<noteq> [] then (Errors 400 errors, s)
         else
           let n = field_text (community_body.name body);
               d = field_text (community_body.description body)
           in (case findOneByName n (communities s) of
                 Some existing \<Rightarrow> (Error 400 ''Community with that name already exists'', s)
               | None \<Rightarrow>
                   if valid_name (trim n) \<and> valid_description d
                   then
                     let c = CommunitySchema_pre_save
                               \<lparr>community_id = nextId s, name = trim n,
                                description = d, creator = user,
                                moderators = [user], members = [user],
                                memberCount =
                                  (case community_body.memberCount body of
                                     None \<Rightarrow> 0 | Some k \<Rightarrow> k)\<rparr>
                     in (Success 201 (CommunityData c),
                         s\<lparr>communities := communities s @ [c],
                           nextId := Suc (nextId s)\<rparr>)
                   else (ServerError ValidationError, s)))"

text \<open>The paths of a community, and the update that the store reads in a body.\<close>

definition community_paths :: "string list" where
  "community_paths =
     [''name'', ''description'', ''creator'', ''moderators'', ''members'', ''memberCount'']"

definition cast_community_update :: "body \<Rightarrow> community_body option" where
  "cast_community_update b =
     (case set_paths community_paths b of
        None \<Rightarrow> None
      | Some m \<Rightarrow>
          Option.bind (cast_path cast_string m ''name'') (\<lambda>v1.
          Option.bind (cast_path cast_string m ''description'') (\<lambda>v2.
          Option.bind (cast_path cast_oid m ''creator'') (\<lambda>v3.
          Option.bind (cast_path cast_oids m ''moderators'') (\<lambda>v4.
          Option.bind (cast_path cast_oids m ''members'') (\<lambda>v5.
          Option.bind (cast_path cast_number m ''memberCount'') (\<lambda>v6.
            Some \<lparr>name = v1, description = v2, creator = v3, moderators = v4,
                  members = v5, memberCount = v6\<rparr>)))))))"

definition apply_community_body :: "community_body \<Rightarrow> community \<Rightarrow> community" where
  "apply_community_body b c =
     (set_field (community_body.memberCount b) (\<lambda>v d. d\<lparr>community.memberCount := v\<rparr>)
     (set_field (community_body.members b) (\<lambda>v d. d\<lparr>community.members := v\<rparr>)
     (set_field (community_body.moderators b) (\<lambda>v d. d\<lparr>community.moderators := v\<rparr>)
     (set_field (community_body.creator b) (\<lambda>v d. d\<lparr>community.creator := v\<rparr>)
     (set_field (community_body.description b) (\<lambda>v d. d\<lparr>community.description := v\<rparr>)
     (set_field (community_body.name b) (\<lambda>v d. d\<lparr>community.name := trim v\<rparr>) c))))))"

definition valid_community_body :: "community_body \<Rightarrow> bool" where
  "valid_community_body b =
     ((case community_body.name b of None \<Rightarrow> True | Some n \<Rightarrow> valid_name (trim n)) \<and>
      (case community_body.description b of None \<Rightarrow> True | Some d \<Rightarrow> valid_description d))"

text \<open>
  \<^verbatim>\<open>updateCommunity\<close>: the actor must be a moderator; \<^verbatim>\<open>if (req.body.name) delete
  req.body.name\<close> takes a truthy top-level \<^verbatim>\<open>name\<close> out of the body (a falsy one, such as
  \<^verbatim>\<open>false\<close> or the empty string, stays, and so does a name under \<^verbatim>\<open>$set\<close>); the rest goes
  to \<^verbatim>\<open>findByIdAndUpdate\<close> with \<^verbatim>\<open>runValidators\<close>.
\<close>

definition updateCommunity ::
  "store \<Rightarrow> oid \<Rightarrow> jsstring \<Rightarrow> body \<Rightarrow> response \<times> store" where
  "updateCommunity s user nm body =
     (case findOneByName nm (communities s) of
        None \<Rightarrow> (Error 404 ''Community not found'', s)
      | Some c \<Rightarrow>
          if user \<notin> set (community.moderators c)
          then (Error 401 ''Not authorized to update this community'', s)
          else
            let body1 = (if truthy (get_key body (js ''name''))
                         then delete_key body (js ''name'') else body)
            in (case cast_community_update body1 of
                  None \<Rightarrow> (Unmodelled, s)
                | Some b \<Rightarrow>
                    if valid_community_body b
                    then
                      let (r, cs) = findByIdAndUpdate community_id (community_id c)
                                      (apply_community_body b) (communities s)
                      in (Success 200
                            (case r of None \<Rightarrow> NullData | Some c' \<Rightarrow> CommunityData c'),
                          s\<lparr>communities := cs\<rparr>)
                    else (ServerError ValidationError, s)))"

text \<open>\<^verbatim>\<open>joinCommunity\<close> and \<^verbatim>\<open>leaveCommunity\<close>.\<close>

definition joinCommunity :: "store \<Rightarrow> oid \<Rightarrow> jsstring \<Rightarrow> response \<times> store" where
  "joinCommunity s user nm =
     (case findOneByName nm (communities s) of
        None \<Rightarrow> (Error 404 ''Community not found'', s)
      | Some c \<Rightarrow>
          if user \<in> set (community.members c)
          then (Error 400 ''User is already a member of this community'', s)
          else
            let c1 = c\<lparr>community.members := community.members c @ [user]\<rparr>;
                (c2, s') = save_community s c1
            in (Success 200 (MemberCountData (length (community.members c2))), s'))"

definition leaveCommunity :: "store \<Rightarrow> oid \<Rightarrow> jsstring \<Rightarrow> response \<times> store" where
  "leaveCommunity s user nm =
     (case findOneByName nm (communities s) of
        None \<Rightarrow> (Error 404 ''Community not found'', s)
      | Some c \<Rightarrow>
          if user \<notin> set (community.members c)
          then (Error 400 ''User is not a member of this community'', s)
          else if community.creator c = user
          then (Error 400 ''Creator cannot leave the community'', s)
          else
            let c1 = c\<lparr>community.members := filter (\<lambda>i. i \<noteq> user) (community.members c)\<rparr>;
                c2 = (if user \<in> set (community.moderators c1)
                      then c1\<lparr>community.moderators :=
                                filter (\<lambda>i. i \<noteq> user) (community.moderators c1)\<rparr>
                      else c1);
                (c3, s') = save_community s c2
            in (Success 200 (MemberCountData (length (community.members c3))), s'))"

section \<open>Operations of the specification\<close>

text \<open>
  The specification's \<^verbatim>\<open>castVote(actor, targetKind, targetId, value)\<close> is \<^verbatim>\<open>votePost\<close> on a
  post and \<^verbatim>\<open>voteComment\<close> on a comment; \<open>votes_of\<close> reads a target's upvotes, downvotes
  and stored score.
\<close>

datatype target = OnPost oid | OnComment oid

fun castVote :: "store \<Rightarrow> oid \<Rightarrow> target \<Rightarrow> int \<Rightarrow> response \<times> store" where
  "castVote s user (OnPost pid) val = votePost s user pid val"
| "castVote s user (OnComment cid) val = voteComment s user cid val"

fun votes_of :: "store \<Rightarrow> target \<Rightarrow> (oid list \<times> oid list \<times> int) option" where
  "votes_of s (OnPost pid) =
     map_option (\<lambda>p. (post.upvotes p, post.downvotes p, post.voteScore p))
       (findById post_id pid (posts s))"
| "votes_of s (OnComment cid) =
     map_option (\<lambda>c. (comment.upvotes c, comment.downvotes c, comment.voteScore c))
       (findById comment_id cid (comments s))"

text \<open>A sequence of votes, each by an actor on a target with a value, failed ones included.\<close>

fun cast_all :: "store \<Rightarrow> (oid \<times> target \<times> int) list \<Rightarrow> store" where
  "cast_all s [] = s"
| "cast_all s ((user, t, val) # ops) = cast_all (snd (castVote s user t val)) ops"

text \<open>
  What one accepted vote does to a target's upvotes, downvotes and score, read off the
  two handlers; \<open>votes_of_castVote\<close> below proves that both handlers do exactly this.
\<close>

definition cast_votes ::
  "oid \<Rightarrow> int \<Rightarrow> oid list \<times> oid list \<times> int \<Rightarrow> oid list \<times> oid list \<times> int" where
  "cast_votes user val v =
     (case v of (up, down, sc) \<Rightarrow>
        let up1 = filter (\<lambda>i. i \<noteq> user) up;
            down1 = filter (\<lambda>i. i \<noteq> user) down;
            up2 = (if val = 1 \<and> user \<notin> set up then up1 @ [user] else up1);
            down2 = (if val \<noteq> 1 \<and> user \<notin> set down then down1 @ [user] else down1)
        in (up2, down2, int (length up2) - int (length down2)))"

text \<open>
  The score invariant: no user twice in an array, and the stored score is the number of
  upvoters minus the number of downvoters.
\<close>

definition score_ok :: "oid list \<times> oid list \<times> int \<Rightarrow> bool" where
  "score_ok v =
     (case v of (up, down, sc) \<Rightarrow>
        distinct up \<and> distinct down \<and> sc = int (card (set up)) - int (card (set down)))"

definition scores_ok :: "store \<Rightarrow> bool" where
  "scores_ok s =
     (list_all (\<lambda>p. score_ok (post.upvotes p, post.downvotes p, post.voteScore p)) (posts s) \<and>
      list_all (\<lambda>c. score_ok (comment.upvotes c, comment.downvotes c, comment.voteScore c))
        (comments s))"

text \<open>Sequences of membership operations, and of leave operations alone.\<close>

datatype membership_op =
  Create oid community_body
  | Join oid jsstring
  | Leave oid jsstring

fun membership_step :: "store \<Rightarrow> membership_op \<Rightarrow> response \<times> store" where
  "membership_step s (Create user body) = createCommunity s user body"
| "membership_step s (Join user nm) = joinCommunity s user nm"
| "membership_step s (Leave user nm) = leaveCommunity s user nm"

fun run_membership :: "store \<Rightarrow> membership_op list \<Rightarrow> store" where
  "run_membership s [] = s"
| "run_membership s (x # xs) = run_membership (snd (membership_step s x)) xs"

fun leave_all :: "store \<Rightarrow> (oid \<times> jsstring) list \<Rightarrow> store" where
  "leave_all s [] = s"
| "leave_all s ((user, nm) # xs) = leave_all (snd (leaveCommunity s user nm)) xs"


text \<open>The data model's invariant that a community's creator is one of its members.\<close>

definition creator_is_member :: "community \<Rightarrow> bool" where
  "creator_is_member c = (community.creator c \<in> set (community.members c))"

text \<open>The store keeps the \<^verbatim>\<open>_id\<close> of a community unique.\<close>

definition community_ids_unique :: "store \<Rightarrow> bool" where
  "community_ids_unique s = distinct (map community_id (communities s))"

section \<open>Example stores\<close>

definition empty_store :: store where
  "empty_store = \<lparr>posts = [], comments = [], communities = [], nextId = 0\<rparr>"

text \<open>User 1 creates the community \<^verbatim>\<open>foo\<close>, which gets the id 0.\<close>

definition foo_body :: community_body where
  "foo_body =
     \<lparr>name = Some (js ''foo''), description = Some (js ''about foo''), creator = None,
      moderators = None, members = None, memberCount = None\<rparr>"

definition foo_store :: store where
  "foo_store = snd (createCommunity empty_store 1 foo_body)"

text \<open>
  User 1, a moderator of \<^verbatim>\<open>foo\<close>, updates it with the body \<^verbatim>\<open>{"members": []}\<close>.
\<close>

definition memberless_store :: store where
  "memberless_store =
     snd (updateCommunity foo_store 1 (js ''foo'') [(js ''members'', JArr [])])"

text \<open>A post of user 1 in \<^verbatim>\<open>foo\<close>, under the id 10, with no vote and no comment.\<close>

definition post10 :: post where
  "post10 =
     \<lparr>post_id = 10, title = js ''hello'', content = None, image = None, url = None,
      author = 1, community = 0, upvotes = [], downvotes = [], voteScore = 0,
      commentCount = 0\<rparr>"

definition post_store :: store where
  "post_store = foo_store\<lparr>posts := [post10], nextId := 100\<rparr>"

text \<open>
  Users 2 and 3 comment: 100 on the post, 101 in reply to 100. Then user 4 replies to
  101 with 102.
\<close>

definition pair_store :: store where
  "pair_store =
     snd (addComment (snd (addComment post_store 2 10 (js ''first'') None))
       3 10 (js ''second'') (Some 100))"

definition chain_store :: store where
  "chain_store = snd (addComment pair_store 4 10 (js ''third'') (Some 101))"

text \<open>
  User 1, the author of post 10, updates it with the body
  \<^verbatim>\<open>{"community": "000000000000000000000009"}\<close>; no community has the id 9.
\<close>

definition astray_store :: store where
  "astray_store =
     snd (updatePost post_store 1 10
       [(js ''community'', JStr (js ''000000000000000000000009''))])"

section \<open>Store primitives: basic facts\<close>

lemma findById_Some: "findById key i ds = Some d \<Longrightarrow> key d = i \<and> d \<in> set ds"
  unfolding findById_def by (induction ds) (auto split: if_splits)

lemma findById_None: "findById key i ds = None \<longleftrightarrow> (\<forall>d \<in> set ds. key d \<noteq> i)"
  unfolding findById_def by (induction ds) auto

lemma findById_writeById:
  "findById key i (writeById key d ds) =
     (if key d = i then (if findById key i ds = None then None else Some d)
      else findById key i ds)"
  unfolding findById_def writeById_def by (induction ds) auto

lemma findById_map_upd:
  assumes "\<And>x. key (upd x) = key x"
  shows "findById key i (map (\<lambda>x. if key x = i then upd x else x) ds) =
           map_option upd (findById key i ds)"
  unfolding findById_def using assms by (induction ds) auto

lemma list_all_writeById:
  "P d \<Longrightarrow> list_all P ds \<Longrightarrow> list_all P (writeById key d ds)"
  unfolding writeById_def by (induction ds) auto

lemma map_key_writeById: "map key (writeById key d ds) = map key ds"
  unfolding writeById_def by (induction ds) auto

lemma findById_unique:
  assumes "distinct (map key ds)" and "d \<in> set ds" and "key d = i"
  shows "findById key i ds = Some d"
  using assms unfolding findById_def by (induction ds) (auto simp: image_iff)

lemma findOneByName_Some:
  "findOneByName n cs = Some c \<Longrightarrow> community.name c = n \<and> c \<in> set cs"
  unfolding findOneByName_def by (induction cs) (auto split: if_splits)


lemma filter_id_notin: "user \<notin> set xs \<Longrightarrow> filter (\<lambda>i. i \<noteq> user) xs = xs"
  by (induction xs) auto

section \<open>Voting: what a vote does\<close>

lemma votes_of_castVote:
  assumes "val = 1 \<or> val = - 1"
  shows "votes_of (snd (castVote s user t val)) t =
           map_option (cast_votes user val) (votes_of s t)"
proof (cases t)
  case (OnPost pid)
  show ?thesis
  proof (cases "findById post_id pid (posts s)")
    case None
    then show ?thesis using assms OnPost by (auto simp: votePost_def)
  next
    case (Some p)
    then have "post_id p = pid" by (simp add: findById_Some)
    then show ?thesis using assms OnPost Some
      by (auto simp: votePost_def save_post_def PostSchema_pre_save_def Let_def
          findById_writeById cast_votes_def filter_id_notin)
  qed
next
  case (OnComment cid)
  show ?thesis
  proof (cases "findById comment_id cid (comments s)")
    case None
    then show ?thesis using assms OnComment by (auto simp: voteComment_def)
  next
    case (Some c)
    then have "comment_id c = cid" by (simp add: findById_Some)
    then show ?thesis using assms OnComment Some
      by (auto simp: voteComment_def save_comment_def CommentSchema_pre_save_def Let_def
          findById_writeById cast_votes_def filter_id_notin)
  qed
qed

lemma cast_votes_twice:
  assumes "user \<notin> set up" and "user \<notin> set down" and "val = 1 \<or> val = - 1"
  shows "cast_votes user val (cast_votes user val (up, down, sc)) =
           (up, down, int (length up) - int (length down))"
  using assms by (auto simp: cast_votes_def Let_def filter_id_notin)

lemma score_ok_cast_votes:
  assumes "score_ok v"
  shows "score_ok (cast_votes user val v)"
proof -
  obtain up down sc where v: "v = (up, down, sc)" by (cases v)
  have d: "distinct up" "distinct down" using assms v by (simp_all add: score_ok_def)
  have "distinct (filter (\<lambda>i. i \<noteq> user) up @ [user])"
    and "distinct (filter (\<lambda>i. i \<noteq> user) down @ [user])"
    using d by simp_all
  then show ?thesis using d v
    by (simp add: score_ok_def cast_votes_def Let_def distinct_card del: distinct_append)
qed

lemma votePost_scores_ok:
  assumes "scores_ok s"
  shows "scores_ok (snd (votePost s user pid val))"
proof (cases "(val = 1 \<or> val = - 1) \<and> findById post_id pid (posts s) \<noteq> None")
  case False
  then show ?thesis using assms by (auto simp: votePost_def)
next
  case True
  then obtain p where p: "findById post_id pid (posts s) = Some p" by auto
  then have "p \<in> set (posts s)" by (simp add: findById_Some)
  then have ok: "score_ok (post.upvotes p, post.downvotes p, post.voteScore p)"
    using assms by (auto simp: scores_ok_def list_all_iff)
  have "score_ok (cast_votes user val (post.upvotes p, post.downvotes p, post.voteScore p))"
    by (rule score_ok_cast_votes [OF ok])
  then show ?thesis using True p assms
    by (auto simp: votePost_def save_post_def PostSchema_pre_save_def Let_def scores_ok_def
        cast_votes_def filter_id_notin intro!: list_all_writeById)
qed

lemma voteComment_scores_ok:
  assumes "scores_ok s"
  shows "scores_ok (snd (voteComment s user cid val))"
proof (cases "(val = 1 \<or> val = - 1) \<and> findById comment_id cid (comments s) \<noteq> None")
  case False
  then show ?thesis using assms by (auto simp: voteComment_def)
next
  case True
  then obtain c where c: "findById comment_id cid (comments s) = Some c" by auto
  then have "c \<in> set (comments s)" by (simp add: findById_Some)
  then have ok: "score_ok (comment.upvotes c, comment.downvotes c, comment.voteScore c)"
    using assms by (auto simp: scores_ok_def list_all_iff)
  have "score_ok
          (cast_votes user val (comment.upvotes c, comment.downvotes c, comment.voteScore c))"
    by (rule score_ok_cast_votes [OF ok])
  then show ?thesis using True c assms
    by (auto simp: voteComment_def save_comment_def CommentSchema_pre_save_def Let_def
        scores_ok_def cast_votes_def filter_id_notin intro!: list_all_writeById)
qed

lemma castVote_scores_ok: "scores_ok s \<Longrightarrow> scores_ok (snd (castVote s user t val))"
  by (cases t) (simp_all add: votePost_scores_ok voteComment_scores_ok)

lemma cast_all_scores_ok: "scores_ok s \<Longrightarrow> scores_ok (cast_all s ops)"
  by (induction s ops rule: cast_all.induct) (simp_all add: castVote_scores_ok)

lemma votes_of_scores_ok:
  assumes "scores_ok s" and "votes_of s t = Some v"
  shows "score_ok v"
proof (cases t)
  case (OnPost pid)
  then obtain p where "findById post_id pid (posts s) = Some p"
    and "v = (post.upvotes p, post.downvotes p, post.voteScore p)"
    using assms(2) by auto
  then show ?thesis using assms(1) findById_Some [of post_id pid "posts s" p]
    by (auto simp: scores_ok_def list_all_iff)
next
  case (OnComment cid)
  then obtain c where "findById comment_id cid (comments s) = Some c"
    and "v = (comment.upvotes c, comment.downvotes c, comment.voteScore c)"
    using assms(2) by auto
  then show ?thesis using assms(1) findById_Some [of comment_id cid "comments s" c]
    by (auto simp: scores_ok_def list_all_iff)
qed

section \<open>The example stores, evaluated\<close>

lemmas handler_defs =
  votePost_def voteComment_def updatePost_def deletePost_def addComment_def
  deleteComment_def createCommunity_def updateCommunity_def joinCommunity_def
  leaveCommunity_def save_post_def save_comment_def save_community_def
  PostSchema_pre_save_def CommentSchema_pre_save_def CommunitySchema_pre_save_def
  findById_def findOneByName_def writeById_def removeById_def findByIdAndUpdate_def
  set_field_def apply_post_body_def valid_post_body_def apply_community_body_def
  valid_community_body_def createCommunity_checks_def field_text_def isLength_def
  name_matches_def name_char_def valid_name_def valid_description_def
  valid_title_def trim_def is_space_def js_def js_add_def round_double_def
  get_key_def delete_key_def set_paths_def cast_path_def
  cast_string_def cast_oid_def cast_oids_def cast_number_def hex_digit_def
  cast_post_update_def cast_community_update_def post_paths_def
  community_paths_def Let_def

lemma foo_store_eq:
  "foo_store =
     \<lparr>posts = [], comments = [],
      communities =
        [\<lparr>community_id = 0, name = js ''foo'', description = js ''about foo'', creator = 1,
          moderators = [1], members = [1], memberCount = 1\<rparr>],
      nextId = 1\<rparr>"
  by (simp add: foo_store_def foo_body_def empty_store_def handler_defs)

lemma post_store_eq:
  "post_store =
     \<lparr>posts = [post10], comments = [],
      communities =
        [\<lparr>community_id = 0, name = js ''foo'', description = js ''about foo'', creator = 1,
          moderators = [1], members = [1], memberCount = 1\<rparr>],
      nextId = 100\<rparr>"
  by (simp add: post_store_def foo_store_eq)

lemma pair_store_eq:
  "pair_store =
     \<lparr>posts = [post10\<lparr>post.commentCount := 2\<rparr>],
      comments =
        [\<lparr>comment_id = 100, content = js ''first'', author = 2, post = 10, parent = None,
          upvotes = [], downvotes = [], voteScore = 0\<rparr>,
         \<lparr>comment_id = 101, content = js ''second'', author = 3, post = 10, parent = Some 100,
          upvotes = [], downvotes = [], voteScore = 0\<rparr>],
      communities =
        [\<lparr>community_id = 0, name = js ''foo'', description = js ''about foo'', creator = 1,
          moderators = [1], members = [1], memberCount = 1\<rparr>],
      nextId = 102\<rparr>"
  by (simp add: pair_store_def post_store_eq post10_def handler_defs)

lemma chain_store_eq:
  "chain_store =
     \<lparr>posts = [post10\<lparr>post.commentCount := 3\<rparr>],
      comments =
        [\<lparr>comment_id = 100, content = js ''first'', author = 2, post = 10, parent = None,
          upvotes = [], downvotes = [], voteScore = 0\<rparr>,
         \<lparr>comment_id = 101, content = js ''second'', author = 3, post = 10, parent = Some 100,
          upvotes = [], downvotes = [], voteScore = 0\<rparr>,
         \<lparr>comment_id = 102, content = js ''third'', author = 4, post = 10, parent = Some 101,
          upvotes = [], downvotes = [], voteScore = 0\<rparr>],
      communities =
        [\<lparr>community_id = 0, name = js ''foo'', description = js ''about foo'', creator = 1,
          moderators = [1], members = [1], memberCount = 1\<rparr>],
      nextId = 103\<rparr>"
  by (simp add: chain_store_def pair_store_eq post10_def handler_defs)

lemma memberless_store_eq:
  "memberless_store =
     \<lparr>posts = [], comments = [],
      communities =
        [\<lparr>community_id = 0, name = js ''foo'', description = js ''about foo'', creator = 1,
          moderators = [1], members = [], memberCount = 1\<rparr>],
      nextId = 1\<rparr>"
  by (simp add: memberless_store_def foo_store_eq handler_defs)

lemma astray_store_eq:
  "astray_store =
     \<lparr>posts = [post10\<lparr>post.community := 9\<rparr>], comments = [],
      communities =
        [\<lparr>community_id = 0, name = js ''foo'', description = js ''about foo'', creator = 1,
          moderators = [1], members = [1], memberCount = 1\<rparr>],
      nextId = 100\<rparr>"
  by (simp add: astray_store_def post_store_eq post10_def handler_defs)

section \<open>Membership: what join, leave and create do\<close>








lemma leaveCommunity_keeps_creator:
  assumes "community_ids_unique s"
    and "findById community_id i (communities s) = Some c"
    and "community.creator c \<in> set (community.members c)"
  shows "community_ids_unique (snd (leaveCommunity s user nm)) \<and>
         (\<exists>c'. findById community_id i (communities (snd (leaveCommunity s user nm))) = Some c' \<and>
               community.creator c' = community.creator c \<and>
               community.creator c \<in> set (community.members c'))"
proof (cases "findOneByName nm (communities s)")
  case None
  then show ?thesis using assms by (simp add: leaveCommunity_def)
next
  case (Some d)
  then have d: "d \<in> set (communities s)" by (simp add: findOneByName_Some)
  have same: "d = c" if "community_id d = i"
  proof -
    have "findById community_id i (communities s) = Some d"
      using assms(1) d that unfolding community_ids_unique_def by (rule findById_unique)
    then show ?thesis using assms(2) by simp
  qed
  show ?thesis using Some assms same
    by (auto simp: leaveCommunity_def save_community_def Let_def CommunitySchema_pre_save_def
        community_ids_unique_def map_key_writeById findById_writeById)
qed

lemma leave_all_keeps_creator:
  assumes "community_ids_unique s"
    and "findById community_id i (communities s) = Some c"
    and "community.creator c \<in> set (community.members c)"
  shows "\<exists>c'. findById community_id i (communities (leave_all s ops)) = Some c' \<and>
              community.creator c' = community.creator c \<and>
              community.creator c \<in> set (community.members c')"
  using assms
proof (induction s ops arbitrary: c rule: leave_all.induct)
  case (1 s)
  then show ?case by simp
next
  case (2 s user nm xs)
  from leaveCommunity_keeps_creator [OF "2.prems", of user nm]
  obtain c' where u: "community_ids_unique (snd (leaveCommunity s user nm))"
    and f: "findById community_id i (communities (snd (leaveCommunity s user nm))) = Some c'"
    and cr: "community.creator c' = community.creator c"
    and mem: "community.creator c \<in> set (community.members c')"
    by blast
  from "2.IH" [OF u f] cr mem show ?case by simp
qed

lemma membership_step_creator_is_member:
  assumes "list_all creator_is_member (communities s)"
  shows "list_all creator_is_member (communities (snd (membership_step s x)))"
proof (cases x)
  case (Create user body)
  then show ?thesis using assms
    by (auto simp: createCommunity_def CommunitySchema_pre_save_def creator_is_member_def
        Let_def split: option.splits)
next
  case (Join user nm)
  show ?thesis
  proof (cases "findOneByName nm (communities s)")
    case None
    then show ?thesis using assms Join by (simp add: joinCommunity_def)
  next
    case (Some c)
    then have "c \<in> set (communities s)" by (simp add: findOneByName_Some)
    then have "creator_is_member c" using assms by (simp add: list_all_iff)
    then have "creator_is_member
        (CommunitySchema_pre_save (c\<lparr>community.members := community.members c @ [user]\<rparr>))"
      by (simp add: creator_is_member_def CommunitySchema_pre_save_def)
    then show ?thesis using Some assms Join
      by (auto simp: joinCommunity_def save_community_def Let_def intro!: list_all_writeById)
  qed
next
  case (Leave user nm)
  show ?thesis
  proof (cases "findOneByName nm (communities s)")
    case None
    then show ?thesis using assms Leave by (simp add: leaveCommunity_def)
  next
    case (Some c)
    then have "c \<in> set (communities s)" by (simp add: findOneByName_Some)
    then have "creator_is_member c" using assms by (simp add: list_all_iff)
    then have "community.creator c \<noteq> user \<Longrightarrow> creator_is_member (CommunitySchema_pre_save
        (c\<lparr>community.members := filter (\<lambda>i. i \<noteq> user) (community.members c),
           community.moderators := ms\<rparr>))"
      and "community.creator c \<noteq> user \<Longrightarrow> creator_is_member (CommunitySchema_pre_save
        (c\<lparr>community.members := filter (\<lambda>i. i \<noteq> user) (community.members c)\<rparr>))" for ms
      by (simp_all add: creator_is_member_def CommunitySchema_pre_save_def)
    then show ?thesis using Some assms Leave
      by (auto simp: leaveCommunity_def save_community_def Let_def intro!: list_all_writeById)
  qed
qed

lemma run_membership_creator_is_member:
  "list_all creator_is_member (communities s) \<Longrightarrow>
   list_all creator_is_member (communities (run_membership s ops))"
  by (induction ops arbitrary: s) (simp_all add: membership_step_creator_is_member)

section \<open>Posts and comments: what the handlers do\<close>

lemma js_add_exact: "\<bar>a + b\<bar> < 2 ^ 53 \<Longrightarrow> js_add a b = a + b"
  by (simp add: js_add_def round_double_def)

lemma no_replies_left:
  "filter (\<lambda>x. comment.parent x = Some i) (filter (\<lambda>x. comment.parent x \<noteq> Some i) cs) = []"
  by (induction cs) auto

lemma deleteComment_effect:
  assumes "findById comment_id cid (comments s) = Some c"
    and "findById post_id (comment.post c) (posts s) = Some p"
    and "succeeded (fst (deleteComment s user cid))"
  shows "comments (snd (deleteComment s user cid)) =
           filter (\<lambda>x. comment_id x \<noteq> cid)
             (filter (\<lambda>x. comment.parent x \<noteq> Some cid) (comments s))"
    and "map_option post.commentCount
           (findById post_id (comment.post c) (posts (snd (deleteComment s user cid)))) =
         Some (js_add (js_add (post.commentCount p) (- 1)) 0)"
proof -
  have id: "comment_id c = cid" "post_id p = comment.post c"
    using assms(1,2) by (simp_all add: findById_Some)
  show "comments (snd (deleteComment s user cid)) =
          filter (\<lambda>x. comment_id x \<noteq> cid)
            (filter (\<lambda>x. comment.parent x \<noteq> Some cid) (comments s))"
    using assms id
    by (auto simp: deleteComment_def save_post_def removeById_def Let_def no_replies_left
        split: if_splits)
  show "map_option post.commentCount
          (findById post_id (comment.post c) (posts (snd (deleteComment s user cid)))) =
        Some (js_add (js_add (post.commentCount p) (- 1)) 0)"
    using assms id
    by (auto simp: deleteComment_def save_post_def PostSchema_pre_save_def removeById_def
        Let_def no_replies_left findById_writeById split: if_splits)
qed


lemma addComment_scores_ok:
  assumes "scores_ok s"
  shows "scores_ok (snd (addComment s user pid text parentId))"
proof (cases "findById post_id pid (posts s)")
  case None
  then show ?thesis using assms by (simp add: addComment_def)
next
  case (Some p)
  then have "p \<in> set (posts s)" by (simp add: findById_Some)
  then have "score_ok (post.upvotes p, post.downvotes p, post.voteScore p)"
    using assms by (auto simp: scores_ok_def list_all_iff)
  then show ?thesis using Some assms
    by (auto simp: addComment_def save_post_def PostSchema_pre_save_def
        CommentSchema_pre_save_def Let_def scores_ok_def score_ok_def distinct_card
        intro!: list_all_writeById)
qed

text \<open>
  Where the references are in the store, the delete handlers authorize as the
  specification says, and a refusal leaves the store as it was.
\<close>

lemma deletePost_authorization:
  assumes "findById post_id pid (posts s) = Some p"
    and "findById community_id (post.community p) (communities s) = Some c"
  shows "deletePost s user pid =
           (if user = post.author p \<or> user \<in> set (community.moderators c)
            then (Success 200 NoData,
                  s\<lparr>comments := filter (\<lambda>x. comment.post x \<noteq> pid) (comments s),
                    posts := removeById post_id pid (posts s)\<rparr>)
            else (Error 401 ''Not authorized to delete this post'', s))"
proof -
  have "post_id p = pid" using assms(1) by (simp add: findById_Some)
  then show ?thesis using assms by (auto simp: deletePost_def Let_def)
qed

lemma deleteComment_authorization:
  assumes "findById comment_id cid (comments s) = Some k"
    and "findById post_id (comment.post k) (posts s) = Some q"
  shows "succeeded (fst (deleteComment s user cid)) \<longleftrightarrow>
           (user = comment.author k \<or> user = post.author q)"
    and "\<not> (user = comment.author k \<or> user = post.author q) \<Longrightarrow>
           deleteComment s user cid = (Error 401 ''Not authorized to delete this comment'', s)"
    and "user = comment.author k \<or> user = post.author q \<Longrightarrow>
           findById comment_id cid (comments (snd (deleteComment s user cid))) = None"
proof -
  have id: "comment_id k = cid" using assms(1) by (simp add: findById_Some)
  show "succeeded (fst (deleteComment s user cid)) \<longleftrightarrow>
      (user = comment.author k \<or> user = post.author q)"
    using assms by (auto simp: deleteComment_def save_post_def Let_def)
  show "\<not> (user = comment.author k \<or> user = post.author q) \<Longrightarrow>
      deleteComment s user cid = (Error 401 ''Not authorized to delete this comment'', s)"
    using assms by (auto simp: deleteComment_def save_post_def Let_def)
  show "user = comment.author k \<or> user = post.author q \<Longrightarrow>
      findById comment_id cid (comments (snd (deleteComment s user cid))) = None"
    using assms id
    by (auto simp: deleteComment_def save_post_def Let_def removeById_def findById_None)
qed

section \<open>Voting: the claims\<close>

text \<open>
  C6. For every target, post or comment: after any finite sequence of vote operations
  the persisted voteScore is the number of users in upvotes minus the number of users
  in downvotes. The sequence starts in a store where this holds of every target, no
  user being twice in an array (\<open>addComment_scores_ok\<close>: a new comment keeps it so), and
  may contain rejected votes.
\<close>

theorem voteScore_invariant:
  assumes "scores_ok s" and "votes_of (cast_all s ops) t = Some (up, down, sc)"
  shows "sc = int (card (set up)) - int (card (set down))"
proof -
  have "scores_ok (cast_all s ops)" using assms(1) by (rule cast_all_scores_ok)
  then have "score_ok (up, down, sc)" using assms(2) by (rule votes_of_scores_ok)
  then show ?thesis by (simp add: score_ok_def)
qed

theorem voteScore_invariant_witness:
  "scores_ok post_store \<and>
   votes_of (cast_all post_store [(5, OnPost 10, 1), (5, OnPost 10, 1), (6, OnPost 10, - 1)])
     (OnPost 10) = Some ([], [6], - 1) \<and>
   (- 1 :: int) = int (card (set ([] :: oid list))) - int (card (set [6 :: oid]))"
proof -
  have h1: "scores_ok post_store"
    by (simp add: post_store_eq post10_def scores_ok_def score_ok_def)
  have h2: "votes_of
      (cast_all post_store [(5, OnPost 10, 1), (5, OnPost 10, 1), (6, OnPost 10, - 1)])
      (OnPost 10) = Some ([], [6], - 1)"
    by (simp add: post_store_eq post10_def handler_defs)
  show ?thesis by (intro conjI h1 h2 voteScore_invariant [OF h1 h2])
qed

text \<open>
  C3, as amended. For every target and every actor who holds no vote on it, the stored
  voteScore being the number of upvotes minus the number of downvotes: casting the same
  value twice in succession leaves the actor with no vote, and the target's upvotes,
  downvotes and voteScore are those of before the first vote.
\<close>

theorem same_vote_twice_retracts:
  assumes "votes_of s t = Some (up, down, sc)"
    and "user \<notin> set up" and "user \<notin> set down"
    and "sc = int (length up) - int (length down)"
    and "val = 1 \<or> val = - 1"
  shows "votes_of (snd (castVote (snd (castVote s user t val)) user t val)) t =
           Some (up, down, sc)"
proof -
  have "votes_of (snd (castVote (snd (castVote s user t val)) user t val)) t =
          map_option (cast_votes user val) (map_option (cast_votes user val) (votes_of s t))"
    using assms(5) by (simp add: votes_of_castVote)
  also have "\<dots> = Some (cast_votes user val (cast_votes user val (up, down, sc)))"
    using assms(1) by simp
  also have "\<dots> = Some (up, down, sc)"
    using assms(2-5) by (simp add: cast_votes_twice)
  finally show ?thesis .
qed

theorem same_vote_twice_retracts_witness:
  "votes_of post_store (OnPost 10) = Some ([], [], 0) \<and>
   votes_of (snd (castVote post_store 5 (OnPost 10) 1)) (OnPost 10) = Some ([5], [], 1) \<and>
   votes_of (snd (castVote (snd (castVote post_store 5 (OnPost 10) 1)) 5 (OnPost 10) 1))
     (OnPost 10) = Some ([], [], 0)"
proof -
  have h1: "votes_of post_store (OnPost 10) = Some ([], [], 0)"
    by (simp add: post_store_eq post10_def handler_defs)
  have h2: "votes_of (snd (castVote post_store 5 (OnPost 10) 1)) (OnPost 10) = Some ([5], [], 1)"
    by (simp add: post_store_eq post10_def handler_defs)
  show ?thesis
    using h1 h2 same_vote_twice_retracts [OF h1, of 5 1] by simp
qed

text \<open>
  C3 as stated fails. User 5 upvotes post 10; upvoting twice more leaves user 5 with an
  upvote. User 5 downvotes post 10 (score -1); upvoting twice then leaves the score 0.
\<close>

theorem same_vote_twice_counterexample:
  "votes_of (snd (castVote post_store 5 (OnPost 10) 1)) (OnPost 10) = Some ([5], [], 1) \<and>
   votes_of (snd (castVote (snd (castVote (snd (castVote post_store 5 (OnPost 10) 1))
      5 (OnPost 10) 1)) 5 (OnPost 10) 1)) (OnPost 10) = Some ([5], [], 1) \<and>
   votes_of (snd (castVote post_store 5 (OnPost 10) (- 1))) (OnPost 10) = Some ([], [5], - 1) \<and>
   votes_of (snd (castVote (snd (castVote (snd (castVote post_store 5 (OnPost 10) (- 1)))
      5 (OnPost 10) 1)) 5 (OnPost 10) 1)) (OnPost 10) = Some ([], [], 0)"
  by (simp add: post_store_eq post10_def handler_defs)

section \<open>Membership: the claims\<close>



text \<open>
  C5, as amended. A leave by the community's creator fails and leaves the store as it
  was (members, moderators and memberCount with it): with the answer that the creator
  cannot leave (the specification's Forbidden) when the creator is a member, and with
  the answer that the user is not a member otherwise. The creator is a member in every
  store that create, join and leave operations make of a store where creators are
  members. No sequence of leave operations, by whatever users on whatever communities,
  removes a creator from the members of their community or changes the creator (the
  ids of the communities being unique, as the store keeps them).
\<close>

theorem creator_cannot_leave:
  "(findOneByName nm (communities s) = Some c \<and> community.creator c = user \<longrightarrow>
      leaveCommunity s user nm =
        (Error 400 (if user \<in> set (community.members c)
                    then ''Creator cannot leave the community''
                    else ''User is not a member of this community''), s)) \<and>
   (list_all creator_is_member (communities s) \<longrightarrow>
      list_all creator_is_member (communities (run_membership s mops))) \<and>
   (community_ids_unique s \<and> findById community_id i (communities s) = Some d \<and>
    community.creator d \<in> set (community.members d) \<longrightarrow>
      (\<exists>d'. findById community_id i (communities (leave_all s ops)) = Some d' \<and>
            community.creator d' = community.creator d \<and>
            community.creator d \<in> set (community.members d')))"
proof (intro conjI impI)
  assume "findOneByName nm (communities s) = Some c \<and> community.creator c = user"
  then show "leaveCommunity s user nm =
      (Error 400 (if user \<in> set (community.members c)
                  then ''Creator cannot leave the community''
                  else ''User is not a member of this community''), s)"
    by (simp add: leaveCommunity_def)
next
  assume "list_all creator_is_member (communities s)"
  then show "list_all creator_is_member (communities (run_membership s mops))"
    by (rule run_membership_creator_is_member)
next
  assume "community_ids_unique s \<and> findById community_id i (communities s) = Some d \<and>
    community.creator d \<in> set (community.members d)"
  then show "\<exists>d'. findById community_id i (communities (leave_all s ops)) = Some d' \<and>
      community.creator d' = community.creator d \<and>
      community.creator d \<in> set (community.members d')"
    using leave_all_keeps_creator by blast
qed

theorem creator_cannot_leave_witness:
  "leaveCommunity foo_store 1 (js ''foo'') =
     (Error 400 ''Creator cannot leave the community'', foo_store) \<and>
   list_all creator_is_member
     (communities (run_membership empty_store
        [Create 1 foo_body, Join 2 (js ''foo''), Leave 1 (js ''foo''), Leave 2 (js ''foo'')])) \<and>
   (\<exists>d'. findById community_id 0
           (communities (leave_all (snd (joinCommunity foo_store 2 (js ''foo'')))
              [(1, (js ''foo'')), (2, (js ''foo'')), (1, (js ''foo''))])) = Some d' \<and>
         community.creator d' = 1 \<and> 1 \<in> set (community.members d'))"
proof -
  let ?c = "\<lparr>community_id = 0, name = js ''foo'', description = js ''about foo'', creator = 1,
             moderators = [1], members = [1], memberCount = 1\<rparr>"
  let ?d = "\<lparr>community_id = 0, name = js ''foo'', description = js ''about foo'', creator = 1,
             moderators = [1], members = [1, 2], memberCount = 2\<rparr>"
  let ?s = "snd (joinCommunity foo_store 2 (js ''foo''))"
  have a1: "findOneByName (js ''foo'') (communities foo_store) = Some ?c \<and> community.creator ?c = 1"
    by (simp add: foo_store_eq findOneByName_def)
  have a2: "community_ids_unique ?s \<and> findById community_id 0 (communities ?s) = Some ?d \<and>
      community.creator ?d \<in> set (community.members ?d)"
    by (simp add: foo_store_eq community_ids_unique_def handler_defs)
  have a3: "list_all creator_is_member (communities empty_store)"
    by (simp add: empty_store_def)
  note t1 = creator_cannot_leave
    [where nm = "js ''foo''" and s = foo_store and c = ?c and user = 1, THEN conjunct1]
  note t2 = creator_cannot_leave
    [where s = empty_store
       and mops = "[Create 1 foo_body, Join 2 (js ''foo''), Leave 1 (js ''foo''), Leave 2 (js ''foo'')]",
     THEN conjunct2, THEN conjunct1]
  note t3 = creator_cannot_leave
    [where s = ?s and i = 0 and d = ?d and ops = "[(1, (js ''foo'')), (2, (js ''foo'')), (1, (js ''foo''))]",
     THEN conjunct2, THEN conjunct2]
  from t1 a1 have c1: "leaveCommunity foo_store 1 (js ''foo'') =
      (Error 400 ''Creator cannot leave the community'', foo_store)"
    by simp
  from t2 a3 have c2: "list_all creator_is_member
      (communities (run_membership empty_store
        [Create 1 foo_body, Join 2 (js ''foo''), Leave 1 (js ''foo''), Leave 2 (js ''foo'')]))"
    by (rule mp)
  from t3 a2 have c3: "\<exists>d'. findById community_id 0
      (communities (leave_all ?s [(1, (js ''foo'')), (2, (js ''foo'')), (1, (js ''foo''))])) = Some d' \<and>
      community.creator d' = 1 \<and> 1 \<in> set (community.members d')"
    by simp
  show ?thesis by (intro conjI c1 c2 c3)
qed

text \<open>
  C5 as stated fails. User 1 creates \<^verbatim>\<open>foo\<close> and, as its moderator, updates it with the
  body \<^verbatim>\<open>{"members": []}\<close>. User 1 is still the creator, and the leave of user 1 is now
  answered with \<^verbatim>\<open>User is not a member of this community\<close>.
\<close>

theorem creator_cannot_leave_counterexample:
  "map community.creator (communities memberless_store) = [1] \<and>
   map community.name (communities memberless_store) = [js ''foo''] \<and>
   leaveCommunity memberless_store 1 (js ''foo'') =
     (Error 400 ''User is not a member of this community'', memberless_store)"
  by (simp add: memberless_store_eq handler_defs)

text \<open>
  C10: the code at two bodies that user 1, a moderator of \<^verbatim>\<open>foo\<close>, sends. In
  \<^verbatim>\<open>{"name": false}\<close> the name is falsy, so it is not deleted from the body; the store
  casts it to the string \<^verbatim>\<open>false\<close>, which the schema accepts as a name, and the
  community has the name \<^verbatim>\<open>false\<close>. The body \<^verbatim>\<open>{"$set": {"name": "bar"}}\<close> has no top-level
  name to delete, and the community has the name \<^verbatim>\<open>bar\<close>. The name of the body
  \<^verbatim>\<open>{"name": "bar"}\<close> is deleted, and the community keeps its name.
\<close>

theorem updateCommunity_renames:
  "map community.name (communities foo_store) = [js ''foo''] \<and>
   succeeded (fst (updateCommunity foo_store 1 (js ''foo'') [(js ''name'', JBool False)])) \<and>
   map community.name
     (communities (snd (updateCommunity foo_store 1 (js ''foo'') [(js ''name'', JBool False)]))) =
     [js ''false''] \<and>
   succeeded (fst (updateCommunity foo_store 1 (js ''foo'')
     [(js ''$set'', JObj [(js ''name'', JStr (js ''bar''))])])) \<and>
   map community.name
     (communities (snd (updateCommunity foo_store 1 (js ''foo'')
        [(js ''$set'', JObj [(js ''name'', JStr (js ''bar''))])]))) =
     [js ''bar''] \<and>
   map community.name
     (communities (snd (updateCommunity foo_store 1 (js ''foo'')
        [(js ''name'', JStr (js ''bar''))]))) =
     [js ''foo'']"
  by (simp add: foo_store_eq handler_defs)

section \<open>Posts and comments: the claims\<close>

text \<open>
  C8: the code at a post whose community is gone. User 1 is the author of post 10 and
  has updated it with the community 9, which no community has as its id. The delete of
  post 10 by user 1 throws at \<^verbatim>\<open>community.moderators\<close>: the answer is 500 and nothing
  is deleted. (Where the post's community and the comment's post are in the store, the
  handlers authorize as the claim says: \<open>deletePost_authorization\<close> and
  \<open>deleteComment_authorization\<close>.)
\<close>

theorem deletePost_astray:
  "map (\<lambda>q. (post_id q, post.author q, post.community q)) (posts astray_store) = [(10, 1, 9)] \<and>
   findById community_id 9 (communities astray_store) = None \<and>
   deletePost astray_store 1 10 = (ServerError TypeError, astray_store)"
  by (simp add: astray_store_eq post10_def handler_defs)

text \<open>
  C9. A successful \<^verbatim>\<open>deletePost\<close> deletes every comment whose post reference is the post,
  whatever its parent, and the post itself; the comments of other posts stay.
\<close>

theorem deletePost_cascade:
  assumes "succeeded (fst (deletePost s user pid))"
  shows "comments (snd (deletePost s user pid)) =
           filter (\<lambda>x. comment.post x \<noteq> pid) (comments s) \<and>
         list_all (\<lambda>x. comment.post x \<noteq> pid) (comments (snd (deletePost s user pid))) \<and>
         findById post_id pid (posts (snd (deletePost s user pid))) = None"
proof -
  obtain p where p: "findById post_id pid (posts s) = Some p"
    using assms by (cases "findById post_id pid (posts s)") (auto simp: deletePost_def)
  then have id: "post_id p = pid" by (simp add: findById_Some)
  have s': "snd (deletePost s user pid) =
      s\<lparr>comments := filter (\<lambda>x. comment.post x \<noteq> pid) (comments s),
        posts := removeById post_id pid (posts s)\<rparr>"
    using assms p id
    by (auto simp: deletePost_def Let_def split: option.splits if_splits)
  have "findById post_id pid (removeById post_id pid (posts s)) = None"
    by (simp add: findById_None removeById_def)
  then show ?thesis by (simp add: s' list_all_iff)
qed

theorem deletePost_cascade_witness:
  "succeeded (fst (deletePost chain_store 1 10)) \<and>
   map comment_id (comments chain_store) = [100, 101, 102] \<and>
   comments (snd (deletePost chain_store 1 10)) = [] \<and>
   findById post_id 10 (posts (snd (deletePost chain_store 1 10))) = None"
proof -
  have h: "succeeded (fst (deletePost chain_store 1 10))"
    by (simp add: chain_store_eq post10_def handler_defs)
  have c: "map comment_id (comments chain_store) = [100, 101, 102]"
    by (simp add: chain_store_eq)
  have f: "filter (\<lambda>x. comment.post x \<noteq> 10) (comments chain_store) = []"
    by (simp add: chain_store_eq)
  from deletePost_cascade [OF h] f
  have "comments (snd (deletePost chain_store 1 10)) = []"
    and "findById post_id 10 (posts (snd (deletePost chain_store 1 10))) = None"
    by simp_all
  then show ?thesis using h c by (intro conjI)
qed

text \<open>
  C2, as amended. For a content that is a non-empty string and a parentId that is
  absent or a well-formed ObjectId, \<^verbatim>\<open>addComment\<close> fails with NotFound exactly when the
  post does not exist, and then no comment is created and no commentCount changes. A
  parentId in the request is never looked up: when the post exists and the content is
  not only white space, the comment is created with that parent, whether or not a
  comment with that id exists, and the post's commentCount is incremented
  (\<^verbatim>\<open>commentCount += 1\<close>, which is one more for a count below \<open>2 ^ 53\<close>).
\<close>

theorem addComment_parent_unchecked:
  assumes "text \<noteq> []"
  shows "(fst (addComment s user pid text parentId) = Error 404 ''Post not found'' \<longleftrightarrow>
            findById post_id pid (posts s) = None) \<and>
         (findById post_id pid (posts s) = None \<longrightarrow>
            addComment s user pid text parentId = (Error 404 ''Post not found'', s)) \<and>
         (findById post_id pid (posts s) = Some p \<and> trim text \<noteq> [] \<longrightarrow>
            (\<exists>c. fst (addComment s user pid text parentId) = Success 201 (CommentData c) \<and>
                 comment.parent c = parentId \<and> comment.post c = pid \<and>
                 comments (snd (addComment s user pid text parentId)) = comments s @ [c] \<and>
                 map_option post.commentCount
                   (findById post_id pid (posts (snd (addComment s user pid text parentId)))) =
                 Some (js_add (post.commentCount p) 1)) \<and>
            (\<bar>post.commentCount p + 1\<bar> < 2 ^ 53 \<longrightarrow>
               js_add (post.commentCount p) 1 = post.commentCount p + 1))"
proof (intro conjI impI)
  show "(fst (addComment s user pid text parentId) = Error 404 ''Post not found'') =
      (findById post_id pid (posts s) = None)"
    using assms by (auto simp: addComment_def save_post_def Let_def split: option.splits)
next
  assume "findById post_id pid (posts s) = None"
  then show "addComment s user pid text parentId = (Error 404 ''Post not found'', s)"
    using assms by (simp add: addComment_def)
next
  assume a: "findById post_id pid (posts s) = Some p \<and> trim text \<noteq> []"
  then have "post_id p = pid" using findById_Some [of post_id pid "posts s" p] by simp
  then show "\<exists>c. fst (addComment s user pid text parentId) = Success 201 (CommentData c) \<and>
      comment.parent c = parentId \<and> comment.post c = pid \<and>
      comments (snd (addComment s user pid text parentId)) = comments s @ [c] \<and>
      map_option post.commentCount
        (findById post_id pid (posts (snd (addComment s user pid text parentId)))) =
      Some (js_add (post.commentCount p) 1)"
    using assms a
    by (simp add: addComment_def save_post_def PostSchema_pre_save_def
        CommentSchema_pre_save_def Let_def findById_writeById)
next
  assume "\<bar>post.commentCount p + 1\<bar> < 2 ^ 53"
  then show "js_add (post.commentCount p) 1 = post.commentCount p + 1"
    by (rule js_add_exact)
qed

theorem addComment_parent_unchecked_witness:
  "addComment post_store 2 11 (js ''lost'') (Some 500) =
     (Error 404 ''Post not found'', post_store) \<and>
   findById comment_id 500 (comments post_store) = None \<and>
   (\<exists>c. fst (addComment post_store 2 10 (js ''reply'') (Some 500)) =
          Success 201 (CommentData c) \<and>
        comment.parent c = Some 500 \<and> comment.post c = 10 \<and>
        comments (snd (addComment post_store 2 10 (js ''reply'') (Some 500))) =
          comments post_store @ [c] \<and>
        map_option post.commentCount
          (findById post_id 10
             (posts (snd (addComment post_store 2 10 (js ''reply'') (Some 500))))) =
        Some (js_add (post.commentCount post10) 1)) \<and>
   js_add (post.commentCount post10) 1 = post.commentCount post10 + 1"
proof -
  have n: "js ''lost'' \<noteq> []" "js ''reply'' \<noteq> []" by (simp_all add: js_def)
  have a: "findById post_id 11 (posts post_store) = None"
    by (simp add: post_store_eq post10_def findById_def)
  have m: "findById comment_id 500 (comments post_store) = None"
    by (simp add: post_store_eq findById_def)
  have b: "findById post_id 10 (posts post_store) = Some post10 \<and> trim (js ''reply'') \<noteq> []"
    by (simp add: post_store_eq post10_def findById_def trim_def is_space_def js_def)
  have k: "\<bar>post.commentCount post10 + 1\<bar> < 2 ^ 53"
    by (simp add: post10_def)
  note t1 = addComment_parent_unchecked [OF n(1), of post_store 2 11 "Some 500"]
  note t2 = addComment_parent_unchecked [OF n(2), of post_store 2 10 "Some 500" post10]
  from t1 a
  have c1: "addComment post_store 2 11 (js ''lost'') (Some 500) =
      (Error 404 ''Post not found'', post_store)"
    by blast
  from t2 b
  have c2: "\<exists>c. fst (addComment post_store 2 10 (js ''reply'') (Some 500)) =
        Success 201 (CommentData c) \<and>
      comment.parent c = Some 500 \<and> comment.post c = 10 \<and>
      comments (snd (addComment post_store 2 10 (js ''reply'') (Some 500))) =
        comments post_store @ [c] \<and>
      map_option post.commentCount
        (findById post_id 10
           (posts (snd (addComment post_store 2 10 (js ''reply'') (Some 500))))) =
      Some (js_add (post.commentCount post10) 1)"
    by blast
  from t2 b k
  have c3: "js_add (post.commentCount post10) 1 = post.commentCount post10 + 1"
    by blast
  show ?thesis by (intro conjI c1 m c2 c3)
qed

text \<open>
  C2 as stated fails. The store has no comment 999; a comment on post 10 with the parent
  999 is created all the same, and the post's commentCount goes from 0 to 1.
\<close>

theorem addComment_parent_counterexample:
  "findById comment_id 999 (comments post_store) = None \<and>
   map post.commentCount (posts post_store) = [0] \<and>
   fst (addComment post_store 2 10 (js ''orphan'') (Some 999)) =
     Success 201 (CommentData
       \<lparr>comment_id = 100, content = js ''orphan'', author = 2, post = 10, parent = Some 999,
        upvotes = [], downvotes = [], voteScore = 0\<rparr>) \<and>
   map comment_id
     (comments (snd (addComment post_store 2 10 (js ''orphan'') (Some 999)))) = [100] \<and>
   map post.commentCount
     (posts (snd (addComment post_store 2 10 (js ''orphan'') (Some 999)))) = [1]"
  by (simp add: post_store_eq post10_def handler_defs)

text \<open>
  C4: the code at two bodies that user 1, the author of post 10 in community 0, sends.
  With \<^verbatim>\<open>{"author": "000000000000000000000007", "community": "000000000000000000000009"}\<close>
  the update succeeds and the post has the author 7 and the community 9; so it does
  with the two fields under \<^verbatim>\<open>$set\<close>. The handler passes the body on as it is, where
  \<^verbatim>\<open>updateComment\<close> passes the content alone and \<^verbatim>\<open>updateCommunity\<close> takes the name out.
\<close>

theorem updatePost_replaces_author:
  "map (\<lambda>q. (post.author q, post.community q)) (posts post_store) = [(1, 0)] \<and>
   succeeded (fst (updatePost post_store 1 10
     [(js ''author'', JStr (js ''000000000000000000000007'')),
      (js ''community'', JStr (js ''000000000000000000000009''))])) \<and>
   map (\<lambda>q. (post.author q, post.community q))
     (posts (snd (updatePost post_store 1 10
        [(js ''author'', JStr (js ''000000000000000000000007'')),
         (js ''community'', JStr (js ''000000000000000000000009''))]))) = [(7, 9)] \<and>
   succeeded (fst (updatePost post_store 1 10
     [(js ''$set'', JObj [(js ''author'', JStr (js ''000000000000000000000007'')),
                          (js ''community'', JStr (js ''000000000000000000000009''))])])) \<and>
   map (\<lambda>q. (post.author q, post.community q))
     (posts (snd (updatePost post_store 1 10
        [(js ''$set'', JObj [(js ''author'', JStr (js ''000000000000000000000007'')),
                             (js ''community'', JStr (js ''000000000000000000000009''))])]))) =
     [(7, 9)]"
  by (simp add: post_store_eq post10_def handler_defs)

text \<open>
  C1: the code at the chain 100 \<leftarrow> 101 \<leftarrow> 102 on post 10, whose commentCount is 3. The
  author of comment 100 deletes it: the answer is 200; comment 101 is deleted with it,
  comment 102 stays, and the commentCount is 2. The replies are counted after they have
  been deleted, so the count is 0 and the counter only loses the comment itself: with
  the two comments 100 \<leftarrow> 101 alone, both are deleted and the commentCount goes from 2
  to 1.
\<close>

theorem deleteComment_chain:
  "map comment_id (comments chain_store) = [100, 101, 102] \<and>
   map comment.parent (comments chain_store) = [None, Some 100, Some 101] \<and>
   map post.commentCount (posts chain_store) = [3] \<and>
   fst (deleteComment chain_store 2 100) = Success 200 NoData \<and>
   map comment_id (comments (snd (deleteComment chain_store 2 100))) = [102] \<and>
   map post.commentCount (posts (snd (deleteComment chain_store 2 100))) = [2] \<and>
   map comment_id (comments pair_store) = [100, 101] \<and>
   map post.commentCount (posts pair_store) = [2] \<and>
   fst (deleteComment pair_store 2 100) = Success 200 NoData \<and>
   comments (snd (deleteComment pair_store 2 100)) = [] \<and>
   map post.commentCount (posts (snd (deleteComment pair_store 2 100))) = [1]"
  by (simp add: chain_store_eq pair_store_eq post10_def handler_defs)


end
